theory Spec2Isabelle
  imports Main
begin

section \<open>Data model of the access-provider client\<close>

text \<open>
  The source is \<^verbatim>\<open>internal/services/access_provider.go\<close>. Go pointers that may be
  \<^verbatim>\<open>nil\<close> are \<open>option\<close> values, Go slices are lists (a \<^verbatim>\<open>nil\<close> slice is
  the empty list, as \<^verbatim>\<open>len\<close>, \<^verbatim>\<open>range\<close> and \<^verbatim>\<open>append\<close> see it), and every
  call that reaches the remote service is a state transformer on the state \<open>'s\<close> of
  that service. The resource payloads (\<^verbatim>\<open>types.AccessProvider\<close>, the order and
  filter inputs, the who and what items) are opaque to this file and stay type
  parameters.
\<close>

type_synonym cursor = string

type_synonym transport_error = string

text \<open>
  Go's \<^verbatim>\<open>error\<close> values that the file builds. \<open>ErrorsNew\<close> is
  \<^verbatim>\<open>errors.New(msg)\<close>; \<open>Errorf fmt args wrapped\<close> is \<^verbatim>\<open>fmt.Errorf\<close> with its
  format string, the dynamic type names printed by \<^verbatim>\<open>%T\<close> and the error wrapped by
  \<^verbatim>\<open>%w\<close>; \<open>ErrUnknownType\<close> is the package's sentinel. \<open>ErrProtocolViolation\<close>
  is built by the pagination executor only.
\<close>

datatype error =
    ErrClient transport_error
  | ErrPermissionDenied string string
  | ErrNotFound string string string
  | ErrUnknownType
  | ErrorsNew string
  | Errorf string "string list" "error option"
  | ErrProtocolViolation

text \<open>
  Modelled from the spec: the constructors \<^verbatim>\<open>NewErrClient\<close>,
  \<^verbatim>\<open>NewErrPermissionDenied\<close> and \<^verbatim>\<open>NewErrNotFound\<close> of the package's error file,
  which is not among the sources. Each returns a non-nil error of its own kind
  (TransportError, PermissionDenied, NotFound in section 7 of the specification) that
  keeps the arguments it was given.
\<close>

definition NewErrClient :: "transport_error \<Rightarrow> error" where
  "NewErrClient err = ErrClient err"

definition NewErrPermissionDenied :: "string \<Rightarrow> string \<Rightarrow> error" where
  "NewErrPermissionDenied operation message = ErrPermissionDenied operation message"

definition NewErrNotFound :: "string \<Rightarrow> string \<Rightarrow> string \<Rightarrow> error" where
  "NewErrNotFound a b message = ErrNotFound a b message"

datatype error_kind =
  TransportError | PermissionDenied | NotFound | ProtocolViolation | Unreachable

fun kind :: "error \<Rightarrow> error_kind" where
  "kind (ErrClient _) = TransportError"
| "kind (ErrPermissionDenied _ _) = PermissionDenied"
| "kind (ErrNotFound _ _ _) = NotFound"
| "kind ErrProtocolViolation = ProtocolViolation"
| "kind ErrUnknownType = Unreachable"
| "kind (ErrorsNew _) = Unreachable"
| "kind (Errorf _ _ _) = Unreachable"

subsection \<open>Response variants of the mutations and of the single read\<close>

text \<open>
  Each response field is a Go interface inspected by a type switch. The datatype has
  one constructor per arm of the switch, named as the Go type, and one more
  constructor (\<open>...Other\<close>, carrying the dynamic type name that \<^verbatim>\<open>%T\<close> prints) for
  every other dynamic type, the \<^verbatim>\<open>nil\<close> interface included: the \<^verbatim>\<open>default\<close> arm.
  The pointer that a known variant holds is never \<^verbatim>\<open>nil\<close> (the decoder allocates the
  variant it names), so taking the address of its payload succeeds.
\<close>

datatype 'ap CreateAccessProviderResponse =
    CreateAccessProviderCreateAccessProvider 'ap
  | CreateAccessProviderCreateAccessProviderPermissionDeniedError string
  | CreateAccessProviderOther string

datatype 'ap UpdateAccessProviderResponse =
    UpdateAccessProviderUpdateAccessProvider 'ap
  | UpdateAccessProviderUpdateAccessProviderPermissionDeniedError string
  | UpdateAccessProviderOther string

datatype DeleteAccessProviderResponse =
    DeleteAccessProviderDeleteAccessProvider
  | DeleteAccessProviderDeleteAccessProviderPermissionDeniedError string
  | DeleteAccessProviderDeleteAccessProviderNotFoundError string
  | DeleteAccessProviderOther string

datatype 'ap GetAccessProviderResponse =
    GetAccessProviderAccessProvider 'ap
  | GetAccessProviderAccessProviderNotFoundError string
  | GetAccessProviderAccessProviderPermissionDeniedError string
  | GetAccessProviderOther string

subsection \<open>The non-streaming methods\<close>

text \<open>
  The generated query functions of \<^verbatim>\<open>schema\<close> are parameters: given the arguments
  and the state of the remote service they return the response, the transport error
  (\<open>None\<close> is \<^verbatim>\<open>nil\<close>) and the next state. The response pointer they return is never
  \<^verbatim>\<open>nil\<close>. A method returns Go's pair of results and the next state.
\<close>

definition CreateAccessProvider ::
  "('inp \<Rightarrow> 's \<Rightarrow> ('ap CreateAccessProviderResponse \<times> transport_error option) \<times> 's)
    \<Rightarrow> 'inp \<Rightarrow> 's \<Rightarrow> ('ap option \<times> error option) \<times> 's" where
  "CreateAccessProvider schema_CreateAccessProvider ap s =
     (case schema_CreateAccessProvider ap s of ((result, err), s') \<Rightarrow>
        (case err of
           Some e \<Rightarrow> ((None, Some (NewErrClient e)), s')
         | None \<Rightarrow>
            (case result of
               CreateAccessProviderCreateAccessProvider response \<Rightarrow>
                 ((Some response, None), s')
             | CreateAccessProviderCreateAccessProviderPermissionDeniedError message \<Rightarrow>
                 ((None, Some (NewErrPermissionDenied ''createAccessProvider'' message)), s')
             | CreateAccessProviderOther t \<Rightarrow>
                 ((None, Some (Errorf ''unexpected response type: %T'' [t] None)), s'))))"

definition UpdateAccessProvider ::
  "(string \<Rightarrow> 'inp \<Rightarrow> 's \<Rightarrow> ('ap UpdateAccessProviderResponse \<times> transport_error option) \<times> 's)
    \<Rightarrow> string \<Rightarrow> 'inp \<Rightarrow> 's \<Rightarrow> ('ap option \<times> error option) \<times> 's" where
  "UpdateAccessProvider schema_UpdateAccessProvider id' ap s =
     (case schema_UpdateAccessProvider id' ap s of ((result, err), s') \<Rightarrow>
        (case err of
           Some e \<Rightarrow> ((None, Some (NewErrClient e)), s')
         | None \<Rightarrow>
            (case result of
               UpdateAccessProviderUpdateAccessProvider response \<Rightarrow>
                 ((Some response, None), s')
             | UpdateAccessProviderUpdateAccessProviderPermissionDeniedError message \<Rightarrow>
                 ((None, Some (NewErrPermissionDenied ''updateAccessProvider'' message)), s')
             | UpdateAccessProviderOther t \<Rightarrow>
                 ((None, Some (Errorf ''unexpected response type: %T'' [t] None)), s'))))"

definition DeleteAccessProvider ::
  "(string \<Rightarrow> 's \<Rightarrow> (DeleteAccessProviderResponse \<times> transport_error option) \<times> 's)
    \<Rightarrow> string \<Rightarrow> 's \<Rightarrow> error option \<times> 's" where
  "DeleteAccessProvider schema_DeleteAccessProvider id' s =
     (case schema_DeleteAccessProvider id' s of ((result, err), s') \<Rightarrow>
        (case err of
           Some e \<Rightarrow> (Some (NewErrClient e), s')
         | None \<Rightarrow>
            (case result of
               DeleteAccessProviderDeleteAccessProvider \<Rightarrow> (None, s')
             | DeleteAccessProviderDeleteAccessProviderPermissionDeniedError message \<Rightarrow>
                 (Some (NewErrPermissionDenied ''deleteAccessProvider'' message), s')
             | DeleteAccessProviderDeleteAccessProviderNotFoundError message \<Rightarrow>
                 (Some (NewErrNotFound id' ''accessProvider'' message), s')
             | DeleteAccessProviderOther t \<Rightarrow>
                 (Some (Errorf ''unexpected response type: %T'' [t] None), s'))))"

definition GetAccessProvider ::
  "(string \<Rightarrow> 's \<Rightarrow> ('ap GetAccessProviderResponse \<times> transport_error option) \<times> 's)
    \<Rightarrow> string \<Rightarrow> 's \<Rightarrow> ('ap option \<times> error option) \<times> 's" where
  "GetAccessProvider schema_GetAccessProvider id' s =
     (case schema_GetAccessProvider id' s of ((result, err), s') \<Rightarrow>
        (case err of
           Some e \<Rightarrow> ((None, Some (NewErrClient e)), s')
         | None \<Rightarrow>
            (case result of
               GetAccessProviderAccessProvider ap \<Rightarrow> ((Some ap, None), s')
             | GetAccessProviderAccessProviderNotFoundError message \<Rightarrow>
                 ((None, Some (NewErrNotFound id' ''accessProvider'' message)), s')
             | GetAccessProviderAccessProviderPermissionDeniedError message \<Rightarrow>
                 ((None, Some (NewErrPermissionDenied ''getAccessProvider'' message)), s')
             | GetAccessProviderOther t \<Rightarrow>
                 ((None, Some (Errorf ''unexpected response type: %T'' [t] None)), s'))))"

subsection \<open>List options\<close>

record ('ord, 'flt) AccessProviderListOptions =
  order_opt :: "'ord list"
  filter_opt :: "'flt option"

definition WithAccessProviderListOrder ::
  "'ord list \<Rightarrow> ('ord, 'flt) AccessProviderListOptions \<Rightarrow> ('ord, 'flt) AccessProviderListOptions" where
  "WithAccessProviderListOrder input options = options\<lparr>order_opt := order_opt options @ input\<rparr>"

definition WithAccessProviderListFilter ::
  "'flt option \<Rightarrow> ('ord, 'flt) AccessProviderListOptions \<Rightarrow> ('ord, 'flt) AccessProviderListOptions" where
  "WithAccessProviderListFilter input options = options\<lparr>filter_opt := input\<rparr>"

text \<open>
  The loop that opens \<^verbatim>\<open>ListAccessProviders\<close>: the zero value of the options
  struct, then every option function applied to it in argument order.
\<close>

definition AccessProviderListOptions_zero :: "('ord, 'flt) AccessProviderListOptions" where
  "AccessProviderListOptions_zero = \<lparr>order_opt = [], filter_opt = None\<rparr>"

definition apply_ops :: "('o \<Rightarrow> 'o) list \<Rightarrow> 'o \<Rightarrow> 'o" where
  "apply_ops ops options = foldl (\<lambda>acc op. op acc) options ops"

text \<open>
  A call of one of the two option constructors, to speak about sequences of
  option applications.
\<close>

datatype ('ord, 'flt) list_option_call = OrderCall "'ord list" | FilterCall "'flt option"

fun option_fn ::
  "('ord, 'flt) list_option_call \<Rightarrow> ('ord, 'flt) AccessProviderListOptions
    \<Rightarrow> ('ord, 'flt) AccessProviderListOptions" where
  "option_fn (OrderCall input) = WithAccessProviderListOrder input"
| "option_fn (FilterCall input) = WithAccessProviderListFilter input"

fun supplied_orders :: "('ord, 'flt) list_option_call list \<Rightarrow> 'ord list" where
  "supplied_orders [] = []"
| "supplied_orders (OrderCall input # cs) = input @ supplied_orders cs"
| "supplied_orders (FilterCall input # cs) = supplied_orders cs"

fun supplied_filters :: "('ord, 'flt) list_option_call list \<Rightarrow> 'flt option list" where
  "supplied_filters [] = []"
| "supplied_filters (OrderCall input # cs) = supplied_filters cs"
| "supplied_filters (FilterCall input # cs) = input # supplied_filters cs"

subsection \<open>Pages, edges and the responses of the list queries\<close>

text \<open>
  Modelled from the spec: \<^verbatim>\<open>schema.PageInfo\<close>, whose declaration is not among the
  sources; section 3 of the specification gives it as
  \<^verbatim>\<open>{ hasNextPage: bool, endCursor: optional<string> }\<close>.
\<close>

record PageInfo =
  hasNextPage :: bool
  endCursor :: "cursor option"

text \<open>
  An edge: its cursor (a \<^verbatim>\<open>*string\<close>) and its node, a pointer to a Go interface.
  The node datatypes have the variant that the extractor's type assertion names and one
  constructor for every other dynamic type (with the type name), the \<^verbatim>\<open>nil\<close>
  interface included.
\<close>

record 'n Edge =
  Cursor :: "cursor option"
  Node :: "'n option"

datatype 'ap AccessProviderPageEdgesEdgeNode =
    AccessProviderPageEdgesEdgeNodeAccessProvider 'ap
  | AccessProviderPageEdgesEdgeNodeOther string

datatype 'who AccessProviderWhoListEdgesEdgeNode =
    AccessProviderWhoListEdgesEdgeNodeAccessWhoItem 'who
  | AccessProviderWhoListEdgesEdgeNodeOther string

datatype 'what AccessProviderWhatListEdgesEdgeNode =
    AccessProviderWhatListEdgesEdgeNodeAccessWhatItem 'what
  | AccessProviderWhatListEdgesEdgeNodeOther string

datatype 'e ListAccessProvidersResponse =
    ListAccessProvidersAccessProvidersPagedResult PageInfo "'e list"
  | ListAccessProvidersAccessProvidersPermissionDeniedError string
  | ListAccessProvidersOther string

datatype 'e GetAccessProviderWhoListWhoList =
    GetAccessProviderWhoListAccessProviderWhoListPagedResult PageInfo "'e list"
  | GetAccessProviderWhoListAccessProviderWhoListPermissionDeniedError string
  | GetAccessProviderWhoListAccessProviderWhoListOther string

datatype 'e GetAccessProviderWhoListResponse =
    GetAccessProviderWhoListAccessProvider "'e GetAccessProviderWhoListWhoList"
  | GetAccessProviderWhoListAccessProviderNotFoundError string
  | GetAccessProviderWhoListAccessProviderPermissionDeniedError string
  | GetAccessProviderWhoListOther string

datatype 'e GetAccessProviderWhatDataObjectListWhatDataObjects =
    GetAccessProviderWhatDataObjectListAccessProviderWhatDataObjectsPagedResult PageInfo "'e list"
  | GetAccessProviderWhatDataObjectListAccessProviderWhatDataObjectsPermissionDeniedError string
  | GetAccessProviderWhatDataObjectListAccessProviderWhatDataObjectsOther string

datatype 'e GetAccessProviderWhatDataObjectListResponse =
    GetAccessProviderWhatDataObjectListAccessProvider
      "'e GetAccessProviderWhatDataObjectListWhatDataObjects"
  | GetAccessProviderWhatDataObjectListAccessProviderNotFoundError string
  | GetAccessProviderWhatDataObjectListAccessProviderPermissionDeniedError string
  | GetAccessProviderWhatDataObjectListOther string

text \<open>
  What a Go call does: it returns its results, or it panics (here with the dynamic type
  name of the failed type assertion).
\<close>

datatype 'a outcome = Panics string | Returns 'a

subsection \<open>The closures of \<^verbatim>\<open>ListAccessProviders\<close>\<close>

text \<open>
  A page loader returns Go's triple: the page info pointer, the edges and the error.
  The generated list query takes the cursor, the page size (a \<^verbatim>\<open>*int\<close>), the filter
  and the order.
\<close>

definition ListAccessProviders_loadPageFn ::
  "(cursor option \<Rightarrow> int option \<Rightarrow> 'flt option \<Rightarrow> 'ord list \<Rightarrow> 's
      \<Rightarrow> ('e ListAccessProvidersResponse \<times> transport_error option) \<times> 's)
    \<Rightarrow> ('ord, 'flt) AccessProviderListOptions
    \<Rightarrow> cursor option \<Rightarrow> 's \<Rightarrow> (PageInfo option \<times> 'e list \<times> error option) \<times> 's" where
  "ListAccessProviders_loadPageFn schema_ListAccessProviders options cursor s =
     (case schema_ListAccessProviders cursor (Some 25) (filter_opt options) (order_opt options) s
      of ((output, err), s') \<Rightarrow>
        (case err of
           Some e \<Rightarrow> ((None, [], Some (NewErrClient e)), s')
         | None \<Rightarrow>
            (case output of
               ListAccessProvidersAccessProvidersPagedResult pageInfo edges \<Rightarrow>
                 ((Some pageInfo, edges, None), s')
             | ListAccessProvidersAccessProvidersPermissionDeniedError message \<Rightarrow>
                 ((None, [], Some (NewErrPermissionDenied ''listAccessProviders'' message)), s')
             | ListAccessProvidersOther t \<Rightarrow>
                 ((None, [], Some (ErrorsNew ''unreachable'')), s'))))"

definition ListAccessProviders_edgeFn ::
  "'ap AccessProviderPageEdgesEdgeNode Edge
    \<Rightarrow> (cursor option \<times> 'ap option \<times> error option) outcome" where
  "ListAccessProviders_edgeFn edge =
     (let cursor = Cursor edge in
      case Node edge of
        None \<Rightarrow> Returns (cursor, None, None)
      | Some node \<Rightarrow>
         (case node of
            AccessProviderPageEdgesEdgeNodeAccessProvider listItem \<Rightarrow>
              Returns (cursor, Some listItem, None)
          | AccessProviderPageEdgesEdgeNodeOther t \<Rightarrow> Panics t))"

subsection \<open>The closures of \<^verbatim>\<open>GetAccessProviderWhoList\<close>\<close>

record 'ord AccessProviderWhoListOptions =
  who_order_opt :: "'ord list"

definition WithAccessProviderWhoListOrder ::
  "'ord list \<Rightarrow> 'ord AccessProviderWhoListOptions \<Rightarrow> 'ord AccessProviderWhoListOptions" where
  "WithAccessProviderWhoListOrder input options =
     options\<lparr>who_order_opt := who_order_opt options @ input\<rparr>"

definition AccessProviderWhoListOptions_zero :: "'ord AccessProviderWhoListOptions" where
  "AccessProviderWhoListOptions_zero = \<lparr>who_order_opt = []\<rparr>"

text \<open>
  The generated who-list query takes the access provider's id, the cursor, the page
  size, one more optional argument (always \<^verbatim>\<open>nil\<close> here) and the order. The inner
  type switch has no default arm: a who-list of any other dynamic type leaves both
  switches and reaches the final \<^verbatim>\<open>return\<close>.
\<close>

definition GetAccessProviderWhoList_loadPageFn ::
  "(string \<Rightarrow> cursor option \<Rightarrow> int option \<Rightarrow> 'flt option \<Rightarrow> 'ord list \<Rightarrow> 's
      \<Rightarrow> ('e GetAccessProviderWhoListResponse \<times> transport_error option) \<times> 's)
    \<Rightarrow> string \<Rightarrow> 'ord AccessProviderWhoListOptions
    \<Rightarrow> cursor option \<Rightarrow> 's \<Rightarrow> (PageInfo option \<times> 'e list \<times> error option) \<times> 's" where
  "GetAccessProviderWhoList_loadPageFn schema_GetAccessProviderWhoList id' options cursor s =
     (case schema_GetAccessProviderWhoList id' cursor (Some 25) None (who_order_opt options) s
      of ((output, err), s') \<Rightarrow>
        (case err of
           Some e \<Rightarrow> ((None, [], Some (NewErrClient e)), s')
         | None \<Rightarrow>
            (case output of
               GetAccessProviderWhoListAccessProvider whoList \<Rightarrow>
                 (case whoList of
                    GetAccessProviderWhoListAccessProviderWhoListPagedResult pageInfo edges \<Rightarrow>
                      ((Some pageInfo, edges, None), s')
                  | GetAccessProviderWhoListAccessProviderWhoListPermissionDeniedError message \<Rightarrow>
                      ((None, [],
                        Some (NewErrPermissionDenied ''accessProviderWhoList'' message)), s')
                  | GetAccessProviderWhoListAccessProviderWhoListOther t \<Rightarrow>
                      ((None, [], Some (ErrorsNew ''unreachable'')), s'))
             | GetAccessProviderWhoListAccessProviderNotFoundError message \<Rightarrow>
                 ((None, [], Some (NewErrNotFound ''AccessProvider'' id' message)), s')
             | GetAccessProviderWhoListAccessProviderPermissionDeniedError message \<Rightarrow>
                 ((None, [], Some (NewErrPermissionDenied ''accessProvider'' message)), s')
             | GetAccessProviderWhoListOther t \<Rightarrow>
                 ((None, [],
                   Some (Errorf (''unexpected type '' @ [CHR 0x27] @ ''%T'' @ [CHR 0x27] @ '': %w'')
                     [t] (Some ErrUnknownType))), s'))))"

definition GetAccessProviderWhoList_edgeFn ::
  "'who AccessProviderWhoListEdgesEdgeNode Edge
    \<Rightarrow> (cursor option \<times> 'who option \<times> error option) outcome" where
  "GetAccessProviderWhoList_edgeFn edge =
     (let cursor = Cursor edge in
      case Node edge of
        None \<Rightarrow> Returns (cursor, None, None)
      | Some node \<Rightarrow>
         (case node of
            AccessProviderWhoListEdgesEdgeNodeAccessWhoItem listItem \<Rightarrow>
              Returns (cursor, Some listItem, None)
          | AccessProviderWhoListEdgesEdgeNodeOther t \<Rightarrow> Panics t))"

subsection \<open>The closures of \<^verbatim>\<open>GetAccessProviderWhatDataObjectList\<close>\<close>

record 'ord AccessProviderWhatListOptions =
  what_order_opt :: "'ord list"

definition WithAccessProviderWhatListOrder ::
  "'ord list \<Rightarrow> 'ord AccessProviderWhatListOptions \<Rightarrow> 'ord AccessProviderWhatListOptions" where
  "WithAccessProviderWhatListOrder input options =
     options\<lparr>what_order_opt := what_order_opt options @ input\<rparr>"

definition AccessProviderWhatListOptions_zero :: "'ord AccessProviderWhatListOptions" where
  "AccessProviderWhatListOptions_zero = \<lparr>what_order_opt = []\<rparr>"

definition GetAccessProviderWhatDataObjectList_loadPageFn ::
  "(string \<Rightarrow> cursor option \<Rightarrow> int option \<Rightarrow> 'flt option \<Rightarrow> 'ord list \<Rightarrow> 's
      \<Rightarrow> ('e GetAccessProviderWhatDataObjectListResponse \<times> transport_error option) \<times> 's)
    \<Rightarrow> string \<Rightarrow> 'ord AccessProviderWhatListOptions
    \<Rightarrow> cursor option \<Rightarrow> 's \<Rightarrow> (PageInfo option \<times> 'e list \<times> error option) \<times> 's" where
  "GetAccessProviderWhatDataObjectList_loadPageFn schema_GetAccessProviderWhatDataObjectList
      id' options cursor s =
     (case schema_GetAccessProviderWhatDataObjectList id' cursor (Some 25) None
             (what_order_opt options) s
      of ((output, err), s') \<Rightarrow>
        (case err of
           Some e \<Rightarrow> ((None, [], Some (NewErrClient e)), s')
         | None \<Rightarrow>
            (case output of
               GetAccessProviderWhatDataObjectListAccessProvider whatList \<Rightarrow>
                 (case whatList of
                    GetAccessProviderWhatDataObjectListAccessProviderWhatDataObjectsPagedResult
                        pageInfo edges \<Rightarrow>
                      ((Some pageInfo, edges, None), s')
                  | GetAccessProviderWhatDataObjectListAccessProviderWhatDataObjectsPermissionDeniedError
                        message \<Rightarrow>
                      ((None, [],
                        Some (NewErrPermissionDenied ''accessProviderWhatDataObjectList'' message)),
                       s')
                  | GetAccessProviderWhatDataObjectListAccessProviderWhatDataObjectsOther t \<Rightarrow>
                      ((None, [], Some (ErrorsNew ''unreachable'')), s'))
             | GetAccessProviderWhatDataObjectListAccessProviderNotFoundError message \<Rightarrow>
                 ((None, [], Some (NewErrNotFound ''AccessProvider'' id' message)), s')
             | GetAccessProviderWhatDataObjectListAccessProviderPermissionDeniedError message \<Rightarrow>
                 ((None, [], Some (NewErrPermissionDenied ''accessProvider'' message)), s')
             | GetAccessProviderWhatDataObjectListOther t \<Rightarrow>
                 ((None, [],
                   Some (Errorf (''unexpected type '' @ [CHR 0x27] @ ''%T'' @ [CHR 0x27] @ '': %w'')
                     [t] (Some ErrUnknownType))), s'))))"

definition GetAccessProviderWhatDataObjectList_edgeFn ::
  "'what AccessProviderWhatListEdgesEdgeNode Edge
    \<Rightarrow> (cursor option \<times> 'what option \<times> error option) outcome" where
  "GetAccessProviderWhatDataObjectList_edgeFn edge =
     (let cursor = Cursor edge in
      case Node edge of
        None \<Rightarrow> Returns (cursor, None, None)
      | Some node \<Rightarrow>
         (case node of
            AccessProviderWhatListEdgesEdgeNodeAccessWhatItem listItem \<Rightarrow>
              Returns (cursor, Some listItem, None)
          | AccessProviderWhatListEdgesEdgeNodeOther t \<Rightarrow> Panics t))"

section \<open>The pagination executor\<close>

text \<open>
  Modelled from the spec: \<^verbatim>\<open>internal.PaginationExecutor\<close> and \<^verbatim>\<open>types.ListItem\<close>,
  which the three list methods call and return and which are not among the sources.
  The model is the state machine of section 4.3 of the specification, run by one
  worker, with the cancellation checkpoints of section 5.

  \<^item> A list item carries exactly one of an item and an error.
  \<^item> The context is seen through the worker's checkpoints: \<open>ctx n\<close> tells whether
    the worker observes the cancellation at its \<open>n\<close>-th checkpoint (counted from 0).
    A checkpoint stands before every loader call, before every edge of a page is
    extracted and emitted, and before every error item is pushed, so that every loader
    call and every push comes right after a checkpoint; at a push it is the race
    between the cancellation and the consumer accepting the item.
  \<^item> A run is the trace of what the worker does (checkpoints with what they observed,
    loader calls with their cursor, pushes onto the stream, the closing of the stream)
    and its terminal state. A push that is in the trace was accepted by the consumer.
  \<^item> Fetching: a cancelled context ends the run without a loader call; a loader error
    is pushed as one error item, unless the context is cancelled by then, and ends the
    run; a page is drained.
  \<^item> Draining, edge by edge and in order: a cancelled context ends the run; an
    extractor error is pushed as one error item and ends the run, the remaining edges
    abandoned; an item is pushed; an edge without item is passed over.
  \<^item> After the last edge: no next page closes the stream; a next page without end
    cursor is a protocol violation, pushed as one error item unless the context is
    cancelled by then; otherwise the next page is fetched with the end cursor of the
    page info.

  The specification says nothing about collaborators that break their contract. In Go
  a panic of the extractor, or reading the page info behind a \<^verbatim>\<open>nil\<close> pointer that
  came with a \<^verbatim>\<open>nil\<close> error, ends the worker abruptly: the run ends in \<open>Crashed\<close>
  with the trace it had so far. A loader that announces a next page for ever gives a
  run that never ends: \<open>fetching\<close> is then \<open>None\<close>.
\<close>

datatype 'i ListItem = ItemOf 'i | ErrorOf error

datatype 'i event =
  Checkpoint bool | LoaderCall "cursor option" | Push "'i ListItem" | Close

datatype terminal = Done | Errored | Cancelled | Crashed

datatype drain_end = Exhausted | Stopped terminal

fun draining ::
  "(nat \<Rightarrow> bool) \<Rightarrow> ('e \<Rightarrow> (cursor option \<times> 'i option \<times> error option) outcome)
    \<Rightarrow> 'e list \<Rightarrow> nat \<Rightarrow> drain_end \<times> nat \<times> 'i event list" where
  "draining ctx edgeFn [] n = (Exhausted, n, [])"
| "draining ctx edgeFn (edge # edges) n =
     (if ctx n then (Stopped Cancelled, Suc n, [Checkpoint True])
      else
        (case edgeFn edge of
           Panics t \<Rightarrow> (Stopped Crashed, Suc n, [Checkpoint False])
         | Returns (cursor, item, err) \<Rightarrow>
            (case err of
               Some e \<Rightarrow> (Stopped Errored, Suc n, [Checkpoint False, Push (ErrorOf e)])
             | None \<Rightarrow>
                (case item of
                   Some i \<Rightarrow>
                     (case draining ctx edgeFn edges (Suc n) of
                        (fin, n', tr) \<Rightarrow> (fin, n', Checkpoint False # Push (ItemOf i) # tr))
                 | None \<Rightarrow>
                     (case draining ctx edgeFn edges (Suc n) of
                        (fin, n', tr) \<Rightarrow> (fin, n', Checkpoint False # tr))))))"

partial_function (option) fetching ::
  "(nat \<Rightarrow> bool)
    \<Rightarrow> (cursor option \<Rightarrow> 's \<Rightarrow> (PageInfo option \<times> 'e list \<times> error option) \<times> 's)
    \<Rightarrow> ('e \<Rightarrow> (cursor option \<times> 'i option \<times> error option) outcome)
    \<Rightarrow> cursor option \<Rightarrow> 's \<Rightarrow> nat \<Rightarrow> ('i event list \<times> terminal) option" where
  "fetching ctx loadPageFn edgeFn cursor s n =
     (if ctx n then Some ([Checkpoint True, Close], Cancelled)
      else
        (case loadPageFn cursor s of ((pageInfo, edges, err), s') \<Rightarrow>
           (case err of
              Some e \<Rightarrow>
                if ctx (Suc n) then
                  Some ([Checkpoint False, LoaderCall cursor, Checkpoint True, Close],
                        Cancelled)
                else
                  Some ([Checkpoint False, LoaderCall cursor,
                         Checkpoint False, Push (ErrorOf e), Close], Errored)
            | None \<Rightarrow>
               (case pageInfo of
                  None \<Rightarrow> Some ([Checkpoint False, LoaderCall cursor], Crashed)
                | Some page \<Rightarrow>
                   (case draining ctx edgeFn edges (Suc n) of
                      (Stopped fin, n', tr) \<Rightarrow>
                        Some (Checkpoint False # LoaderCall cursor # tr
                                @ (if fin = Crashed then [] else [Close]), fin)
                    | (Exhausted, n', tr) \<Rightarrow>
                        if \<not> hasNextPage page then
                          Some (Checkpoint False # LoaderCall cursor # tr @ [Close], Done)
                        else
                          (case endCursor page of
                             None \<Rightarrow>
                               if ctx n' then
                                 Some (Checkpoint False # LoaderCall cursor # tr
                                         @ [Checkpoint True, Close], Cancelled)
                               else
                                 Some (Checkpoint False # LoaderCall cursor # tr
                                         @ [Checkpoint False,
                                            Push (ErrorOf ErrProtocolViolation), Close],
                                       Errored)
                           | Some c \<Rightarrow>
                               Option.bind (fetching ctx loadPageFn edgeFn (Some c) s' n')
                                 (\<lambda>(tr', fin).
                                    Some (Checkpoint False # LoaderCall cursor # tr @ tr', fin))))))))"

declare fetching.simps [code]

definition PaginationExecutor ::
  "(nat \<Rightarrow> bool)
    \<Rightarrow> (cursor option \<Rightarrow> 's \<Rightarrow> (PageInfo option \<times> 'e list \<times> error option) \<times> 's)
    \<Rightarrow> ('e \<Rightarrow> (cursor option \<times> 'i option \<times> error option) outcome)
    \<Rightarrow> 's \<Rightarrow> ('i event list \<times> terminal) option" where
  "PaginationExecutor ctx loadPageFn edgeFn s = fetching ctx loadPageFn edgeFn None s 0"

subsection \<open>The three list methods\<close>

definition ListAccessProviders ::
  "(nat \<Rightarrow> bool)
    \<Rightarrow> (cursor option \<Rightarrow> int option \<Rightarrow> 'flt option \<Rightarrow> 'ord list \<Rightarrow> 's
      \<Rightarrow> ('ap AccessProviderPageEdgesEdgeNode Edge ListAccessProvidersResponse
            \<times> transport_error option) \<times> 's)
    \<Rightarrow> (('ord, 'flt) AccessProviderListOptions \<Rightarrow> ('ord, 'flt) AccessProviderListOptions) list
    \<Rightarrow> 's \<Rightarrow> ('ap event list \<times> terminal) option" where
  "ListAccessProviders ctx schema_ListAccessProviders ops s =
     (let options = apply_ops ops AccessProviderListOptions_zero in
      PaginationExecutor ctx
        (ListAccessProviders_loadPageFn schema_ListAccessProviders options)
        ListAccessProviders_edgeFn s)"

definition GetAccessProviderWhoList ::
  "(nat \<Rightarrow> bool)
    \<Rightarrow> (string \<Rightarrow> cursor option \<Rightarrow> int option \<Rightarrow> 'flt option \<Rightarrow> 'ord list \<Rightarrow> 's
      \<Rightarrow> ('who AccessProviderWhoListEdgesEdgeNode Edge GetAccessProviderWhoListResponse
            \<times> transport_error option) \<times> 's)
    \<Rightarrow> string
    \<Rightarrow> ('ord AccessProviderWhoListOptions \<Rightarrow> 'ord AccessProviderWhoListOptions) list
    \<Rightarrow> 's \<Rightarrow> ('who event list \<times> terminal) option" where
  "GetAccessProviderWhoList ctx schema_GetAccessProviderWhoList id' ops s =
     (let options = apply_ops ops AccessProviderWhoListOptions_zero in
      PaginationExecutor ctx
        (GetAccessProviderWhoList_loadPageFn schema_GetAccessProviderWhoList id' options)
        GetAccessProviderWhoList_edgeFn s)"

definition GetAccessProviderWhatDataObjectList ::
  "(nat \<Rightarrow> bool)
    \<Rightarrow> (string \<Rightarrow> cursor option \<Rightarrow> int option \<Rightarrow> 'flt option \<Rightarrow> 'ord list \<Rightarrow> 's
      \<Rightarrow> ('what AccessProviderWhatListEdgesEdgeNode Edge
              GetAccessProviderWhatDataObjectListResponse
            \<times> transport_error option) \<times> 's)
    \<Rightarrow> string
    \<Rightarrow> ('ord AccessProviderWhatListOptions \<Rightarrow> 'ord AccessProviderWhatListOptions) list
    \<Rightarrow> 's \<Rightarrow> ('what event list \<times> terminal) option" where
  "GetAccessProviderWhatDataObjectList ctx schema_GetAccessProviderWhatDataObjectList id' ops s =
     (let options = apply_ops ops AccessProviderWhatListOptions_zero in
      PaginationExecutor ctx
        (GetAccessProviderWhatDataObjectList_loadPageFn
           schema_GetAccessProviderWhatDataObjectList id' options)
        GetAccessProviderWhatDataObjectList_edgeFn s)"

subsection \<open>Reading a trace\<close>

text \<open>The stream as the consumer receives it: the pushed list items, in order.\<close>

fun pushed :: "'i event list \<Rightarrow> 'i ListItem list" where
  "pushed [] = []"
| "pushed (Push x # tr) = x # pushed tr"
| "pushed (_ # tr) = pushed tr"

text \<open>The cursors of the loader calls, in order.\<close>

fun loader_calls :: "'i event list \<Rightarrow> cursor option list" where
  "loader_calls [] = []"
| "loader_calls (LoaderCall c # tr) = c # loader_calls tr"
| "loader_calls (_ # tr) = loader_calls tr"






subsection \<open>Describing what the collaborators do\<close>

text \<open>
  \<open>returns_pages loadPageFn cursor s pages\<close>: called with \<open>cursor\<close> in state \<open>s\<close>
  and then with the end cursor of each page it returned, the loader returns the pages
  of the list one after the other without error, each announcing a next page and
  giving its end cursor. The result is the cursor and the state of the next call.
\<close>

fun returns_pages ::
  "(cursor option \<Rightarrow> 's \<Rightarrow> (PageInfo option \<times> 'e list \<times> error option) \<times> 's)
    \<Rightarrow> cursor option \<Rightarrow> 's \<Rightarrow> (PageInfo \<times> 'e list) list \<Rightarrow> (cursor option \<times> 's) option" where
  "returns_pages loadPageFn cursor s [] = Some (cursor, s)"
| "returns_pages loadPageFn cursor s ((page, edges) # pages) =
     (case loadPageFn cursor s of ((pageInfo, edges', err), s') \<Rightarrow>
        if err = None \<and> pageInfo = Some page \<and> edges' = edges
           \<and> hasNextPage page \<and> endCursor page \<noteq> None
        then returns_pages loadPageFn (endCursor page) s' pages
        else None)"

text \<open>The extractor returns for every edge of the list, with a nil error.\<close>

fun extracts_ok ::
  "('e \<Rightarrow> (cursor option \<times> 'i option \<times> error option) outcome) \<Rightarrow> 'e list \<Rightarrow> bool" where
  "extracts_ok edgeFn [] = True"
| "extracts_ok edgeFn (edge # edges) =
     (case edgeFn edge of
        Returns (cursor, item, None) \<Rightarrow> extracts_ok edgeFn edges
      | _ \<Rightarrow> False)"

text \<open>The items the extractor yields for the edges of the list, in order.\<close>

fun items_of ::
  "('e \<Rightarrow> (cursor option \<times> 'i option \<times> error option) outcome) \<Rightarrow> 'e list \<Rightarrow> 'i ListItem list" where
  "items_of edgeFn [] = []"
| "items_of edgeFn (edge # edges) =
     (case edgeFn edge of
        Returns (cursor, Some i, None) \<Rightarrow> ItemOf i # items_of edgeFn edges
      | _ \<Rightarrow> items_of edgeFn edges)"



subsection \<open>Example remote services\<close>

text \<open>
  Answers of the generated list query on which the theorems below are run: two pages
  of access providers; a first page followed by a permission-denied answer; a page
  that announces a next page whatever the cursor; one page whose only edge has a node
  of another implementation of the node interface; one page with such an edge between
  two access providers.
\<close>

definition example_edge :: "cursor \<Rightarrow> nat \<Rightarrow> nat AccessProviderPageEdgesEdgeNode Edge" where
  "example_edge c ap =
     \<lparr>Cursor = Some c, Node = Some (AccessProviderPageEdgesEdgeNodeAccessProvider ap)\<rparr>"

definition example_two_pages ::
  "cursor option \<Rightarrow> int option \<Rightarrow> nat option \<Rightarrow> nat list \<Rightarrow> unit
    \<Rightarrow> (nat AccessProviderPageEdgesEdgeNode Edge ListAccessProvidersResponse
          \<times> transport_error option) \<times> unit" where
  "example_two_pages cursor first flt ord s =
     (if cursor = None then
        ((ListAccessProvidersAccessProvidersPagedResult
            \<lparr>hasNextPage = True, endCursor = Some ''k2''\<rparr>
            [example_edge ''k1'' 1, example_edge ''k2'' 2], None), s)
      else
        ((ListAccessProvidersAccessProvidersPagedResult
            \<lparr>hasNextPage = False, endCursor = None\<rparr>
            [example_edge ''k3'' 3], None), s))"

definition example_denied_second ::
  "cursor option \<Rightarrow> int option \<Rightarrow> nat option \<Rightarrow> nat list \<Rightarrow> unit
    \<Rightarrow> (nat AccessProviderPageEdgesEdgeNode Edge ListAccessProvidersResponse
          \<times> transport_error option) \<times> unit" where
  "example_denied_second cursor first flt ord s =
     (if cursor = None then
        ((ListAccessProvidersAccessProvidersPagedResult
            \<lparr>hasNextPage = True, endCursor = Some ''k2''\<rparr>
            [example_edge ''k1'' 1, example_edge ''k2'' 2], None), s)
      else
        ((ListAccessProvidersAccessProvidersPermissionDeniedError ''denied'', None), s))"

definition example_endless ::
  "cursor option \<Rightarrow> int option \<Rightarrow> nat option \<Rightarrow> nat list \<Rightarrow> unit
    \<Rightarrow> (nat AccessProviderPageEdgesEdgeNode Edge ListAccessProvidersResponse
          \<times> transport_error option) \<times> unit" where
  "example_endless cursor first flt ord s =
     ((ListAccessProvidersAccessProvidersPagedResult
         \<lparr>hasNextPage = True, endCursor = Some ''k1''\<rparr> [example_edge ''k1'' 1], None), s)"

definition example_foreign_node ::
  "cursor option \<Rightarrow> int option \<Rightarrow> nat option \<Rightarrow> nat list \<Rightarrow> unit
    \<Rightarrow> (nat AccessProviderPageEdgesEdgeNode Edge ListAccessProvidersResponse
          \<times> transport_error option) \<times> unit" where
  "example_foreign_node cursor first flt ord s =
     ((ListAccessProvidersAccessProvidersPagedResult
         \<lparr>hasNextPage = False, endCursor = None\<rparr>
         [\<lparr>Cursor = Some ''k1'',
           Node = Some (AccessProviderPageEdgesEdgeNodeOther
                          ''*schema.AccessProviderPageEdgesEdgeNodeDataSource'')\<rparr>], None), s)"

definition example_foreign_middle ::
  "cursor option \<Rightarrow> int option \<Rightarrow> nat option \<Rightarrow> nat list \<Rightarrow> unit
    \<Rightarrow> (nat AccessProviderPageEdgesEdgeNode Edge ListAccessProvidersResponse
          \<times> transport_error option) \<times> unit" where
  "example_foreign_middle cursor first flt ord s =
     ((ListAccessProvidersAccessProvidersPagedResult
         \<lparr>hasNextPage = False, endCursor = None\<rparr>
         [example_edge ''k1'' 1,
          \<lparr>Cursor = Some ''k2'',
           Node = Some (AccessProviderPageEdgesEdgeNodeOther
                          ''*schema.AccessProviderPageEdgesEdgeNodeDataSource'')\<rparr>,
          example_edge ''k3'' 3], None), s)"

section \<open>Properties of the non-streaming methods and of the options\<close>

lemma apply_ops_Cons: "apply_ops (op # ops) options = apply_ops ops (op options)"
  by (simp add: apply_ops_def)

lemma apply_ops_order:
  "order_opt (apply_ops (map option_fn cs) options) = order_opt options @ supplied_orders cs"
proof (induction cs arbitrary: options)
  case Nil
  show ?case by (simp add: apply_ops_def)
next
  case (Cons c cs)
  show ?case
    by (cases c)
      (simp_all add: apply_ops_Cons Cons.IH WithAccessProviderListOrder_def
        WithAccessProviderListFilter_def)
qed

lemma apply_ops_filter:
  "filter_opt (apply_ops (map option_fn cs) options) =
     last (filter_opt options # supplied_filters cs)"
proof (induction cs arbitrary: options)
  case Nil
  show ?case by (simp add: apply_ops_def)
next
  case (Cons c cs)
  show ?case
    by (cases c)
      (simp_all add: apply_ops_Cons Cons.IH WithAccessProviderListOrder_def
        WithAccessProviderListFilter_def)
qed

text \<open>
  C9. Each of \<^verbatim>\<open>CreateAccessProvider\<close>, \<^verbatim>\<open>UpdateAccessProvider\<close> and
  \<^verbatim>\<open>GetAccessProvider\<close> returns a non-nil access provider exactly when it returns a
  nil error, whatever the remote call answers (transport error, any response variant,
  the default arm included); \<^verbatim>\<open>DeleteAccessProvider\<close> returns a nil error exactly
  when the remote call had no transport error and answered its success variant.
\<close>

theorem crud_exactly_one_result:
  "(fst (fst (CreateAccessProvider create ap s)) \<noteq> None)
      = (snd (fst (CreateAccessProvider create ap s)) = None)
   \<and> (fst (fst (UpdateAccessProvider update id' ap s)) \<noteq> None)
      = (snd (fst (UpdateAccessProvider update id' ap s)) = None)
   \<and> (fst (fst (GetAccessProvider get id' s)) \<noteq> None)
      = (snd (fst (GetAccessProvider get id' s)) = None)
   \<and> (fst (DeleteAccessProvider delete id' s) = None)
      = (fst (delete id' s) = (DeleteAccessProviderDeleteAccessProvider, None))"
proof -
  have c: "(fst (fst (CreateAccessProvider create ap s)) \<noteq> None)
      = (snd (fst (CreateAccessProvider create ap s)) = None)"
    by (simp add: CreateAccessProvider_def
        split: prod.splits option.splits CreateAccessProviderResponse.splits)
  have u: "(fst (fst (UpdateAccessProvider update id' ap s)) \<noteq> None)
      = (snd (fst (UpdateAccessProvider update id' ap s)) = None)"
    by (simp add: UpdateAccessProvider_def
        split: prod.splits option.splits UpdateAccessProviderResponse.splits)
  have g: "(fst (fst (GetAccessProvider get id' s)) \<noteq> None)
      = (snd (fst (GetAccessProvider get id' s)) = None)"
    by (simp add: GetAccessProvider_def
        split: prod.splits option.splits GetAccessProviderResponse.splits)
  have d: "(fst (DeleteAccessProvider delete id' s) = None)
      = (fst (delete id' s) = (DeleteAccessProviderDeleteAccessProvider, None))"
    by (auto simp add: DeleteAccessProvider_def
        split: prod.splits option.splits DeleteAccessProviderResponse.splits)
  from c u g d show ?thesis by blast
qed

text \<open>
  C10. The option functions compose asymmetrically. After any sequence of calls of
  \<^verbatim>\<open>WithAccessProviderListOrder\<close> and \<^verbatim>\<open>WithAccessProviderListFilter\<close> is applied to
  the zero options, as \<^verbatim>\<open>ListAccessProviders\<close> does, the order list is the
  concatenation of all supplied orderings in application order, and the filter is the
  last one supplied (\<^verbatim>\<open>nil\<close> when none was): earlier filters are discarded.
\<close>

theorem list_options_compose:
  "order_opt (apply_ops (map option_fn cs) AccessProviderListOptions_zero) = supplied_orders cs
   \<and> filter_opt (apply_ops (map option_fn cs) AccessProviderListOptions_zero)
      = last (None # supplied_filters cs)"
  by (simp add: apply_ops_order apply_ops_filter AccessProviderListOptions_zero_def)

section \<open>Properties of the page loaders\<close>

text \<open>
  What each loader returns when the query has no transport error, by response
  variant, and what it returns along with an error.
\<close>

lemmas new_err_defs = NewErrClient_def NewErrPermissionDenied_def NewErrNotFound_def

lemma list_loader_error_no_page:
  "fst (ListAccessProviders_loadPageFn q options cursor s) = (pageInfo, edges, Some e)
    \<Longrightarrow> pageInfo = None \<and> edges = []"
  unfolding ListAccessProviders_loadPageFn_def
  by (simp split: prod.splits option.splits ListAccessProvidersResponse.splits) 

lemma who_loader_error_no_page:
  "fst (GetAccessProviderWhoList_loadPageFn q id' options cursor s) = (pageInfo, edges, Some e)
    \<Longrightarrow> pageInfo = None \<and> edges = []"
  unfolding GetAccessProviderWhoList_loadPageFn_def
  by (simp split: prod.splits option.splits GetAccessProviderWhoListResponse.splits
        GetAccessProviderWhoListWhoList.splits)

lemma what_loader_error_no_page:
  "fst (GetAccessProviderWhatDataObjectList_loadPageFn q id' options cursor s)
      = (pageInfo, edges, Some e)
    \<Longrightarrow> pageInfo = None \<and> edges = []"
  unfolding GetAccessProviderWhatDataObjectList_loadPageFn_def
  by (simp split: prod.splits option.splits GetAccessProviderWhatDataObjectListResponse.splits
        GetAccessProviderWhatDataObjectListWhatDataObjects.splits)

lemma list_loader_answer:
  "fst (q cursor (Some 25) (filter_opt options) (order_opt options) s) = (out, None)
    \<Longrightarrow> fst (ListAccessProviders_loadPageFn q options cursor s) =
        (case out of
           ListAccessProvidersAccessProvidersPagedResult pageInfo edges \<Rightarrow>
             (Some pageInfo, edges, None)
         | ListAccessProvidersAccessProvidersPermissionDeniedError message \<Rightarrow>
             (None, [], Some (ErrPermissionDenied ''listAccessProviders'' message))
         | ListAccessProvidersOther t \<Rightarrow> (None, [], Some (ErrorsNew ''unreachable'')))"
  by (cases "q cursor (Some 25) (filter_opt options) (order_opt options) s"; cases out)
    (simp_all add: ListAccessProviders_loadPageFn_def new_err_defs)

lemma who_loader_answer:
  "fst (q id' cursor (Some 25) None (who_order_opt options) s) = (out, None)
    \<Longrightarrow> fst (GetAccessProviderWhoList_loadPageFn q id' options cursor s) =
        (case out of
           GetAccessProviderWhoListAccessProvider whoList \<Rightarrow>
             (case whoList of
                GetAccessProviderWhoListAccessProviderWhoListPagedResult pageInfo edges \<Rightarrow>
                  (Some pageInfo, edges, None)
              | GetAccessProviderWhoListAccessProviderWhoListPermissionDeniedError message \<Rightarrow>
                  (None, [], Some (ErrPermissionDenied ''accessProviderWhoList'' message))
              | GetAccessProviderWhoListAccessProviderWhoListOther t \<Rightarrow>
                  (None, [], Some (ErrorsNew ''unreachable'')))
         | GetAccessProviderWhoListAccessProviderNotFoundError message \<Rightarrow>
             (None, [], Some (ErrNotFound ''AccessProvider'' id' message))
         | GetAccessProviderWhoListAccessProviderPermissionDeniedError message \<Rightarrow>
             (None, [], Some (ErrPermissionDenied ''accessProvider'' message))
         | GetAccessProviderWhoListOther t \<Rightarrow>
             (None, [],
              Some (Errorf (''unexpected type '' @ [CHR 0x27] @ ''%T'' @ [CHR 0x27] @ '': %w'')
                     [t] (Some ErrUnknownType))))"
  by (cases "q id' cursor (Some 25) None (who_order_opt options) s"; cases out)
    (simp_all add: GetAccessProviderWhoList_loadPageFn_def new_err_defs
      split: GetAccessProviderWhoListWhoList.splits)

lemma what_loader_answer:
  "fst (q id' cursor (Some 25) None (what_order_opt options) s) = (out, None)
    \<Longrightarrow> fst (GetAccessProviderWhatDataObjectList_loadPageFn q id' options cursor s) =
        (case out of
           GetAccessProviderWhatDataObjectListAccessProvider whatList \<Rightarrow>
             (case whatList of
                GetAccessProviderWhatDataObjectListAccessProviderWhatDataObjectsPagedResult
                    pageInfo edges \<Rightarrow>
                  (Some pageInfo, edges, None)
              | GetAccessProviderWhatDataObjectListAccessProviderWhatDataObjectsPermissionDeniedError
                    message \<Rightarrow>
                  (None, [],
                   Some (ErrPermissionDenied ''accessProviderWhatDataObjectList'' message))
              | GetAccessProviderWhatDataObjectListAccessProviderWhatDataObjectsOther t \<Rightarrow>
                  (None, [], Some (ErrorsNew ''unreachable'')))
         | GetAccessProviderWhatDataObjectListAccessProviderNotFoundError message \<Rightarrow>
             (None, [], Some (ErrNotFound ''AccessProvider'' id' message))
         | GetAccessProviderWhatDataObjectListAccessProviderPermissionDeniedError message \<Rightarrow>
             (None, [], Some (ErrPermissionDenied ''accessProvider'' message))
         | GetAccessProviderWhatDataObjectListOther t \<Rightarrow>
             (None, [],
              Some (Errorf (''unexpected type '' @ [CHR 0x27] @ ''%T'' @ [CHR 0x27] @ '': %w'')
                     [t] (Some ErrUnknownType))))"
  by (cases "q id' cursor (Some 25) None (what_order_opt options) s"; cases out)
    (simp_all add: GetAccessProviderWhatDataObjectList_loadPageFn_def new_err_defs
      split: GetAccessProviderWhatDataObjectListWhatDataObjects.splits)


text \<open>
  C6. A response whose variant is none of the known ones makes every page loader
  return an error and no page data. The loaders cannot panic: they are total functions
  into Go's result triple. For \<^verbatim>\<open>ListAccessProviders\<close> the default arm returns
  \<^verbatim>\<open>errors.New("unreachable")\<close>; for the who and what lists an unknown outer variant
  returns the wrapped \<^verbatim>\<open>ErrUnknownType\<close> and an unknown inner variant falls through
  to the final \<^verbatim>\<open>errors.New("unreachable")\<close>.
\<close>

theorem loaders_unknown_variant_is_error:
  "(fst (list_query cursor (Some 25) (filter_opt options) (order_opt options) s)
        = (ListAccessProvidersOther t, None)
      \<longrightarrow> fst (ListAccessProviders_loadPageFn list_query options cursor s)
            = (None, [], Some (ErrorsNew ''unreachable'')))
   \<and> (fst (who_query id' cursor (Some 25) None (who_order_opt who_options) s2)
        = (GetAccessProviderWhoListOther t, None)
      \<longrightarrow> fst (GetAccessProviderWhoList_loadPageFn who_query id' who_options cursor s2)
            = (None, [],
               Some (Errorf (''unexpected type '' @ [CHR 0x27] @ ''%T'' @ [CHR 0x27] @ '': %w'')
                      [t] (Some ErrUnknownType))))
   \<and> (fst (who_query id' cursor (Some 25) None (who_order_opt who_options) s2)
        = (GetAccessProviderWhoListAccessProvider
             (GetAccessProviderWhoListAccessProviderWhoListOther t), None)
      \<longrightarrow> fst (GetAccessProviderWhoList_loadPageFn who_query id' who_options cursor s2)
            = (None, [], Some (ErrorsNew ''unreachable'')))
   \<and> (fst (what_query id' cursor (Some 25) None (what_order_opt what_options) s3)
        = (GetAccessProviderWhatDataObjectListOther t, None)
      \<longrightarrow> fst (GetAccessProviderWhatDataObjectList_loadPageFn what_query id' what_options
                 cursor s3)
            = (None, [],
               Some (Errorf (''unexpected type '' @ [CHR 0x27] @ ''%T'' @ [CHR 0x27] @ '': %w'')
                      [t] (Some ErrUnknownType))))
   \<and> (fst (what_query id' cursor (Some 25) None (what_order_opt what_options) s3)
        = (GetAccessProviderWhatDataObjectListAccessProvider
             (GetAccessProviderWhatDataObjectListAccessProviderWhatDataObjectsOther t), None)
      \<longrightarrow> fst (GetAccessProviderWhatDataObjectList_loadPageFn what_query id' what_options
                 cursor s3)
            = (None, [], Some (ErrorsNew ''unreachable'')))"
  by (simp add: list_loader_answer who_loader_answer what_loader_answer)

theorem loaders_unknown_variant_is_error_witness:
  "fst (ListAccessProviders_loadPageFn
          (\<lambda>c n f ord s. ((ListAccessProvidersOther ''<nil>'', None), s))
          (AccessProviderListOptions_zero :: (nat, nat) AccessProviderListOptions) None ())
     = (None, ([] :: nat list), Some (ErrorsNew ''unreachable''))
   \<and> fst (GetAccessProviderWhoList_loadPageFn
          (\<lambda>i c n f ord s.
             ((GetAccessProviderWhoListAccessProvider
                 (GetAccessProviderWhoListAccessProviderWhoListOther ''<nil>''), None), s))
          ''ap1'' (AccessProviderWhoListOptions_zero :: nat AccessProviderWhoListOptions)
          None ())
     = (None, ([] :: nat list), Some (ErrorsNew ''unreachable''))"
proof -
  have a: "fst ((\<lambda>(c :: cursor option) (n :: int option) (f :: nat option) (ord :: nat list)
                  (s :: unit).
                ((ListAccessProvidersOther ''<nil>'' :: nat ListAccessProvidersResponse,
                  None :: transport_error option), s))
              None (Some 25) (filter_opt AccessProviderListOptions_zero)
              (order_opt AccessProviderListOptions_zero) ())
            = (ListAccessProvidersOther ''<nil>'', None)
      \<longrightarrow> fst (ListAccessProviders_loadPageFn
                (\<lambda>c n f ord s. ((ListAccessProvidersOther ''<nil>'', None), s))
                (AccessProviderListOptions_zero :: (nat, nat) AccessProviderListOptions) None ())
            = (None, ([] :: nat list), Some (ErrorsNew ''unreachable''))"
    by (rule loaders_unknown_variant_is_error [THEN conjunct1])
  have b: "fst ((\<lambda>(i :: string) (c :: cursor option) (n :: int option) (f :: nat option)
                  (ord :: nat list) (s :: unit).
                ((GetAccessProviderWhoListAccessProvider
                    (GetAccessProviderWhoListAccessProviderWhoListOther ''<nil>'')
                    :: nat GetAccessProviderWhoListResponse,
                  None :: transport_error option), s))
              ''ap1'' None (Some 25) None (who_order_opt AccessProviderWhoListOptions_zero) ())
            = (GetAccessProviderWhoListAccessProvider
                 (GetAccessProviderWhoListAccessProviderWhoListOther ''<nil>''), None)
      \<longrightarrow> fst (GetAccessProviderWhoList_loadPageFn
                (\<lambda>i c n f ord s.
                   ((GetAccessProviderWhoListAccessProvider
                       (GetAccessProviderWhoListAccessProviderWhoListOther ''<nil>''), None), s))
                ''ap1'' (AccessProviderWhoListOptions_zero :: nat AccessProviderWhoListOptions)
                None ())
            = (None, ([] :: nat list), Some (ErrorsNew ''unreachable''))"
    by (rule loaders_unknown_variant_is_error [THEN conjunct2, THEN conjunct2, THEN conjunct1])
  from a b show ?thesis by simp
qed

text \<open>
  C7. Whenever one of the three page loaders returns a non-nil error, the page info it
  returns is \<^verbatim>\<open>nil\<close> and so is the edge slice. A permission-denied response variant
  (of the list, of the access provider, of its who or what list) gives an error of
  kind PermissionDenied and a not-found variant one of kind NotFound: the loaders call
  the constructor of that kind, never the one of a transport error.
\<close>

theorem loader_error_carries_no_page_and_keeps_kind:
  "(fst (ListAccessProviders_loadPageFn list_query options cursor s) = (pageInfo, edges, Some e)
      \<longrightarrow> pageInfo = None \<and> edges = [])
   \<and> (fst (GetAccessProviderWhoList_loadPageFn who_query id' who_options cursor s2)
         = (pageInfo, who_edges, Some e)
      \<longrightarrow> pageInfo = None \<and> who_edges = [])
   \<and> (fst (GetAccessProviderWhatDataObjectList_loadPageFn what_query id' what_options cursor s3)
         = (pageInfo, what_edges, Some e)
      \<longrightarrow> pageInfo = None \<and> what_edges = [])
   \<and> (fst (list_query cursor (Some 25) (filter_opt options) (order_opt options) s)
         = (ListAccessProvidersAccessProvidersPermissionDeniedError message, None)
      \<longrightarrow> map_option kind (snd (snd (fst (ListAccessProviders_loadPageFn list_query options
                                             cursor s))))
            = Some PermissionDenied)
   \<and> (fst (who_query id' cursor (Some 25) None (who_order_opt who_options) s2)
         = (GetAccessProviderWhoListAccessProviderPermissionDeniedError message, None)
      \<longrightarrow> map_option kind (snd (snd (fst (GetAccessProviderWhoList_loadPageFn who_query id'
                                             who_options cursor s2))))
            = Some PermissionDenied)
   \<and> (fst (who_query id' cursor (Some 25) None (who_order_opt who_options) s2)
         = (GetAccessProviderWhoListAccessProvider
              (GetAccessProviderWhoListAccessProviderWhoListPermissionDeniedError message), None)
      \<longrightarrow> map_option kind (snd (snd (fst (GetAccessProviderWhoList_loadPageFn who_query id'
                                             who_options cursor s2))))
            = Some PermissionDenied)
   \<and> (fst (who_query id' cursor (Some 25) None (who_order_opt who_options) s2)
         = (GetAccessProviderWhoListAccessProviderNotFoundError message, None)
      \<longrightarrow> map_option kind (snd (snd (fst (GetAccessProviderWhoList_loadPageFn who_query id'
                                             who_options cursor s2))))
            = Some NotFound)
   \<and> (fst (what_query id' cursor (Some 25) None (what_order_opt what_options) s3)
         = (GetAccessProviderWhatDataObjectListAccessProviderPermissionDeniedError message, None)
      \<longrightarrow> map_option kind (snd (snd (fst (GetAccessProviderWhatDataObjectList_loadPageFn
                                             what_query id' what_options cursor s3))))
            = Some PermissionDenied)
   \<and> (fst (what_query id' cursor (Some 25) None (what_order_opt what_options) s3)
         = (GetAccessProviderWhatDataObjectListAccessProvider
              (GetAccessProviderWhatDataObjectListAccessProviderWhatDataObjectsPermissionDeniedError
                 message), None)
      \<longrightarrow> map_option kind (snd (snd (fst (GetAccessProviderWhatDataObjectList_loadPageFn
                                             what_query id' what_options cursor s3))))
            = Some PermissionDenied)
   \<and> (fst (what_query id' cursor (Some 25) None (what_order_opt what_options) s3)
         = (GetAccessProviderWhatDataObjectListAccessProviderNotFoundError message, None)
      \<longrightarrow> map_option kind (snd (snd (fst (GetAccessProviderWhatDataObjectList_loadPageFn
                                             what_query id' what_options cursor s3))))
            = Some NotFound)"
proof (intro conjI)
  show "fst (ListAccessProviders_loadPageFn list_query options cursor s) = (pageInfo, edges, Some e)
      \<longrightarrow> pageInfo = None \<and> edges = []"
    by (rule impI) (rule list_loader_error_no_page)
  show "fst (GetAccessProviderWhoList_loadPageFn who_query id' who_options cursor s2)
         = (pageInfo, who_edges, Some e)
      \<longrightarrow> pageInfo = None \<and> who_edges = []"
    by (rule impI) (rule who_loader_error_no_page)
  show "fst (GetAccessProviderWhatDataObjectList_loadPageFn what_query id' what_options cursor s3)
         = (pageInfo, what_edges, Some e)
      \<longrightarrow> pageInfo = None \<and> what_edges = []"
    by (rule impI) (rule what_loader_error_no_page)
qed (simp_all add: list_loader_answer who_loader_answer what_loader_answer)


theorem loader_error_carries_no_page_and_keeps_kind_witness:
  "fst (ListAccessProviders_loadPageFn
          (\<lambda>c n f ord s.
             ((ListAccessProvidersAccessProvidersPermissionDeniedError ''denied'', None), s))
          (AccessProviderListOptions_zero :: (nat, nat) AccessProviderListOptions) None ())
     = (None, ([] :: nat list), Some (ErrPermissionDenied ''listAccessProviders'' ''denied''))
   \<and> map_option kind (snd (snd (fst (ListAccessProviders_loadPageFn
          (\<lambda>c n f ord s.
             ((ListAccessProvidersAccessProvidersPermissionDeniedError ''denied''
                 :: nat ListAccessProvidersResponse, None), s))
          (AccessProviderListOptions_zero :: (nat, nat) AccessProviderListOptions) None ()))))
     = Some PermissionDenied"
proof -
  let ?r = "(None :: PageInfo option, [] :: nat list,
             Some (ErrPermissionDenied ''listAccessProviders'' ''denied''))"
  have a: "fst (ListAccessProviders_loadPageFn
          (\<lambda>c n f ord s.
             ((ListAccessProvidersAccessProvidersPermissionDeniedError ''denied'', None), s))
          (AccessProviderListOptions_zero :: (nat, nat) AccessProviderListOptions) None ())
       = (None, ([] :: nat list), Some (ErrPermissionDenied ''listAccessProviders'' ''denied''))
     \<longrightarrow> (None :: PageInfo option) = None \<and> ([] :: nat list) = []"
    by (rule loader_error_carries_no_page_and_keeps_kind [THEN conjunct1])
  have b: "fst ((\<lambda>(c :: cursor option) (n :: int option) (f :: nat option) (ord :: nat list)
                  (s :: unit).
                ((ListAccessProvidersAccessProvidersPermissionDeniedError ''denied''
                    :: nat ListAccessProvidersResponse,
                  None :: transport_error option), s))
              None (Some 25) (filter_opt AccessProviderListOptions_zero)
              (order_opt AccessProviderListOptions_zero) ())
            = (ListAccessProvidersAccessProvidersPermissionDeniedError ''denied'', None)
      \<longrightarrow> map_option kind (snd (snd (fst (ListAccessProviders_loadPageFn
          (\<lambda>c n f ord s.
             ((ListAccessProvidersAccessProvidersPermissionDeniedError ''denied''
                 :: nat ListAccessProvidersResponse, None), s))
          (AccessProviderListOptions_zero :: (nat, nat) AccessProviderListOptions) None ()))))
           = Some PermissionDenied"
    by (rule loader_error_carries_no_page_and_keeps_kind
          [THEN conjunct2, THEN conjunct2, THEN conjunct2, THEN conjunct1])
  from a b show ?thesis
    by (simp add: ListAccessProviders_loadPageFn_def NewErrPermissionDenied_def)
qed

section \<open>Properties of the edge extractors\<close>

text \<open>
  C2 (as amended). An edge whose node is present but of another concrete shape than
  the expected variant makes each of the three edge extractors panic on its unchecked
  type assertion: nothing is returned. No edge at all makes an extractor return a
  non-nil error.
\<close>

theorem edgeFn_mismatch_panics:
  "(Node edge = Some (AccessProviderPageEdgesEdgeNodeOther t)
      \<longrightarrow> ListAccessProviders_edgeFn edge = Panics t)
   \<and> (Node who_edge = Some (AccessProviderWhoListEdgesEdgeNodeOther t)
      \<longrightarrow> GetAccessProviderWhoList_edgeFn who_edge = Panics t)
   \<and> (Node what_edge = Some (AccessProviderWhatListEdgesEdgeNodeOther t)
      \<longrightarrow> GetAccessProviderWhatDataObjectList_edgeFn what_edge = Panics t)
   \<and> ListAccessProviders_edgeFn edge' \<noteq> Returns (cursor, item, Some e)
   \<and> GetAccessProviderWhoList_edgeFn who_edge' \<noteq> Returns (cursor, who_item, Some e)
   \<and> GetAccessProviderWhatDataObjectList_edgeFn what_edge' \<noteq> Returns (cursor, what_item, Some e)"
  by (simp add: ListAccessProviders_edgeFn_def GetAccessProviderWhoList_edgeFn_def
      GetAccessProviderWhatDataObjectList_edgeFn_def Let_def
      split: option.splits AccessProviderPageEdgesEdgeNode.splits
        AccessProviderWhoListEdgesEdgeNode.splits AccessProviderWhatListEdgesEdgeNode.splits)

theorem edgeFn_mismatch_panics_witness:
  "ListAccessProviders_edgeFn
     \<lparr>Cursor = Some ''c7'',
      Node = Some (AccessProviderPageEdgesEdgeNodeOther
                     ''*schema.AccessProviderPageEdgesEdgeNodeDataSource''
                   :: nat AccessProviderPageEdgesEdgeNode)\<rparr>
     = Panics ''*schema.AccessProviderPageEdgesEdgeNodeDataSource''"
proof -
  have "Node \<lparr>Cursor = Some ''c7'',
      Node = Some (AccessProviderPageEdgesEdgeNodeOther
                     ''*schema.AccessProviderPageEdgesEdgeNodeDataSource''
                   :: nat AccessProviderPageEdgesEdgeNode)\<rparr>
     = Some (AccessProviderPageEdgesEdgeNodeOther
               ''*schema.AccessProviderPageEdgesEdgeNodeDataSource'')
    \<longrightarrow> ListAccessProviders_edgeFn
     \<lparr>Cursor = Some ''c7'',
      Node = Some (AccessProviderPageEdgesEdgeNodeOther
                     ''*schema.AccessProviderPageEdgesEdgeNodeDataSource''
                   :: nat AccessProviderPageEdgesEdgeNode)\<rparr>
     = Panics ''*schema.AccessProviderPageEdgesEdgeNodeDataSource''"
    by (rule edgeFn_mismatch_panics [THEN conjunct1])
  then show ?thesis by simp
qed

text \<open>
  The claim C2 as the specification states it, an error value instead of a panic,
  fails: on an edge of \<^verbatim>\<open>ListAccessProviders\<close> whose node is another implementation
  of the node interface the extractor panics and returns no error value.
\<close>

theorem edgeFn_mismatch_counterexample:
  "ListAccessProviders_edgeFn
     \<lparr>Cursor = Some ''c1'',
      Node = Some (AccessProviderPageEdgesEdgeNodeOther
                     ''*schema.AccessProviderPageEdgesEdgeNodeDataSource''
                   :: nat AccessProviderPageEdgesEdgeNode)\<rparr>
     = Panics ''*schema.AccessProviderPageEdgesEdgeNodeDataSource''
   \<and> (\<forall>cursor item e.
        ListAccessProviders_edgeFn
          \<lparr>Cursor = Some ''c1'',
           Node = Some (AccessProviderPageEdgesEdgeNodeOther
                          ''*schema.AccessProviderPageEdgesEdgeNodeDataSource''
                        :: nat AccessProviderPageEdgesEdgeNode)\<rparr>
        \<noteq> Returns (cursor, item, Some e))"
  by (simp add: ListAccessProviders_edgeFn_def)

section \<open>Properties of the pagination executor\<close>

lemmas example_defs = example_edge_def example_two_pages_def example_denied_second_def
  example_endless_def example_foreign_node_def example_foreign_middle_def

lemma pushed_append: "pushed (xs @ ys) = pushed xs @ pushed ys"
  by (induction xs rule: pushed.induct) simp_all

lemma loader_calls_append: "loader_calls (xs @ ys) = loader_calls xs @ loader_calls ys"
  by (induction xs rule: loader_calls.induct) simp_all


lemma extracts_ok_append:
  "extracts_ok edgeFn (xs @ ys) = (extracts_ok edgeFn xs \<and> extracts_ok edgeFn ys)"
  by (induction xs) (simp_all split: outcome.splits prod.splits option.splits)

lemma items_of_append:
  "items_of edgeFn (xs @ ys) = items_of edgeFn xs @ items_of edgeFn ys"
  by (induction xs) (simp_all split: outcome.splits prod.splits option.splits)

lemma draining_ok:
  "extracts_ok edgeFn edges \<Longrightarrow>
     \<exists>tr. draining (\<lambda>n. False) edgeFn edges n = (Exhausted, n + length edges, tr)
        \<and> pushed tr = items_of edgeFn edges \<and> loader_calls tr = [] \<and> Close \<notin> set tr"
proof (induction edges arbitrary: n)
  case Nil
  show ?case by simp
next
  case (Cons edge edges)
  from Cons.prems obtain cursor item where
    r: "edgeFn edge = Returns (cursor, item, None)" and ok: "extracts_ok edgeFn edges"
    by (auto split: outcome.splits prod.splits option.splits)
  from Cons.IH [OF ok, of "Suc n"] obtain tr where
    d: "draining (\<lambda>n. False) edgeFn edges (Suc n) = (Exhausted, Suc n + length edges, tr)"
    and p: "pushed tr = items_of edgeFn edges" and l: "loader_calls tr = []"
    and c: "Close \<notin> set tr"
    by blast
  show ?case
  proof (cases item)
    case None
    with r d p l c show ?thesis by simp
  next
    case (Some i)
    with r d p l c show ?thesis by simp
  qed
qed


lemma bind_Some_pair: "Option.bind x (\<lambda>(tr, fin). Some (tr, fin)) = x"
  by (cases x) auto

lemma bind_bind_prefix:
  "Option.bind (Option.bind x (\<lambda>(tr, fin). Some (pre2 @ tr, fin :: terminal)))
       (\<lambda>(tr, fin). Some (pre1 @ tr, fin))
     = Option.bind x (\<lambda>(tr, fin). Some ((pre1 @ pre2) @ tr, fin))"
  by (cases x) auto

lemma fetching_page:
  assumes "loadPageFn cursor s = ((Some page, edges, None), s')"
    and "extracts_ok edgeFn edges"
  shows "\<exists>tr n'. draining (\<lambda>n. False) edgeFn edges (Suc n) = (Exhausted, n', tr)
          \<and> pushed tr = items_of edgeFn edges \<and> loader_calls tr = [] \<and> Close \<notin> set tr
          \<and> fetching (\<lambda>n. False) loadPageFn edgeFn cursor s n =
             (if \<not> hasNextPage page then
                Some (Checkpoint False # LoaderCall cursor # tr @ [Close], Done)
              else
                (case endCursor page of
                   None \<Rightarrow>
                     Some (Checkpoint False # LoaderCall cursor # tr
                             @ [Checkpoint False, Push (ErrorOf ErrProtocolViolation), Close],
                           Errored)
                 | Some c \<Rightarrow>
                     Option.bind (fetching (\<lambda>n. False) loadPageFn edgeFn (Some c) s' n')
                       (\<lambda>(tr', fin).
                          Some ((Checkpoint False # LoaderCall cursor # tr) @ tr', fin))))"
proof -
  from draining_ok [OF assms(2), of "Suc n"] obtain tr where
    d: "draining (\<lambda>n. False) edgeFn edges (Suc n) = (Exhausted, Suc n + length edges, tr)"
    and p: "pushed tr = items_of edgeFn edges" and l: "loader_calls tr = []"
    and c: "Close \<notin> set tr"
    by blast
  have "fetching (\<lambda>n. False) loadPageFn edgeFn cursor s n =
             (if \<not> hasNextPage page then
                Some (Checkpoint False # LoaderCall cursor # tr @ [Close], Done)
              else
                (case endCursor page of
                   None \<Rightarrow>
                     Some (Checkpoint False # LoaderCall cursor # tr
                             @ [Checkpoint False, Push (ErrorOf ErrProtocolViolation), Close],
                           Errored)
                 | Some c \<Rightarrow>
                     Option.bind (fetching (\<lambda>n. False) loadPageFn edgeFn (Some c) s'
                                    (Suc n + length edges))
                       (\<lambda>(tr', fin).
                          Some ((Checkpoint False # LoaderCall cursor # tr) @ tr', fin))))"
    by (subst fetching.simps) (simp add: assms(1) d split: option.splits)
  with d p l c show ?thesis by blast
qed

lemma fetching_pages:
  "returns_pages loadPageFn cursor s pages = Some (c', s') \<Longrightarrow>
   extracts_ok edgeFn (concat (map snd pages)) \<Longrightarrow>
     \<exists>pre n'. fetching (\<lambda>n. False) loadPageFn edgeFn cursor s n
                = Option.bind (fetching (\<lambda>n. False) loadPageFn edgeFn c' s' n')
                    (\<lambda>(tr', fin). Some (pre @ tr', fin))
        \<and> pushed pre = items_of edgeFn (concat (map snd pages))
        \<and> length (loader_calls pre) = length pages \<and> Close \<notin> set pre"
proof (induction pages arbitrary: cursor s n)
  case Nil
  then have "c' = cursor" "s' = s" by simp_all
  then have "fetching (\<lambda>n. False) loadPageFn edgeFn cursor s n
                = Option.bind (fetching (\<lambda>n. False) loadPageFn edgeFn c' s' n)
                    (\<lambda>(tr', fin). Some ([] @ tr', fin))"
    by (simp add: bind_Some_pair)
  then show ?case by fastforce
next
  case (Cons pg pages)
  obtain page edges where pg: "pg = (page, edges)" by (cases pg)
  from Cons.prems(1) pg obtain s1 c1 where
    ld: "loadPageFn cursor s = ((Some page, edges, None), s1)"
    and nx: "hasNextPage page" and ec: "endCursor page = Some c1"
    and rest: "returns_pages loadPageFn (Some c1) s1 pages = Some (c', s')"
    by (auto split: prod.splits if_splits)
  from Cons.prems(2) pg have ok1: "extracts_ok edgeFn edges"
    and ok2: "extracts_ok edgeFn (concat (map snd pages))"
    by (simp_all add: extracts_ok_append)
  from fetching_page [where loadPageFn = loadPageFn and cursor = cursor and s = s and n = n,
      OF ld ok1] nx ec obtain tr n1 where
    p: "pushed tr = items_of edgeFn edges" and l: "loader_calls tr = []"
    and c: "Close \<notin> set tr"
    and f: "fetching (\<lambda>n. False) loadPageFn edgeFn cursor s n =
              Option.bind (fetching (\<lambda>n. False) loadPageFn edgeFn (Some c1) s1 n1)
                (\<lambda>(tr', fin). Some ((Checkpoint False # LoaderCall cursor # tr) @ tr', fin))"
    by auto
  from Cons.IH [OF rest ok2, of n1] obtain pre n' where
    f2: "fetching (\<lambda>n. False) loadPageFn edgeFn (Some c1) s1 n1
                = Option.bind (fetching (\<lambda>n. False) loadPageFn edgeFn c' s' n')
                    (\<lambda>(tr', fin). Some (pre @ tr', fin))"
    and p2: "pushed pre = items_of edgeFn (concat (map snd pages))"
    and l2: "length (loader_calls pre) = length pages" and c2: "Close \<notin> set pre"
    by blast
  let ?pre = "(Checkpoint False # LoaderCall cursor # tr) @ pre"
  have "fetching (\<lambda>n. False) loadPageFn edgeFn cursor s n
          = Option.bind (fetching (\<lambda>n. False) loadPageFn edgeFn c' s' n')
              (\<lambda>(tr', fin). Some (?pre @ tr', fin))"
    by (simp only: f f2 bind_bind_prefix)
  moreover have "pushed ?pre = items_of edgeFn (concat (map snd (pg # pages)))"
    using p p2 pg by (simp add: pushed_append items_of_append)
  moreover have "length (loader_calls ?pre) = length (pg # pages)"
    using l l2 by (simp add: loader_calls_append)
  moreover have "Close \<notin> set ?pre" using c c2 by simp
  ultimately show ?case by blast
qed








lemma extracts_ok_ListAccessProviders:
  "extracts_ok ListAccessProviders_edgeFn edges
     = (\<forall>edge \<in> set edges.
          Node edge = None
          \<or> (\<exists>ap. Node edge = Some (AccessProviderPageEdgesEdgeNodeAccessProvider ap)))"
proof (induction edges)
  case Nil
  show ?case by simp
next
  case (Cons edge edges)
  show ?case
  proof (cases "Node edge")
    case None
    then have "ListAccessProviders_edgeFn edge = Returns (Cursor edge, None, None)"
      by (simp add: ListAccessProviders_edgeFn_def)
    with None Cons.IH show ?thesis by simp
  next
    case (Some node)
    show ?thesis
    proof (cases node)
      case (AccessProviderPageEdgesEdgeNodeAccessProvider ap)
      with Some have "ListAccessProviders_edgeFn edge = Returns (Cursor edge, Some ap, None)"
        by (simp add: ListAccessProviders_edgeFn_def)
      with Some AccessProviderPageEdgesEdgeNodeAccessProvider Cons.IH show ?thesis by simp
    next
      case (AccessProviderPageEdgesEdgeNodeOther t)
      with Some have "ListAccessProviders_edgeFn edge = Panics t"
        by (simp add: ListAccessProviders_edgeFn_def)
      with Some AccessProviderPageEdgesEdgeNodeOther show ?thesis by simp
    qed
  qed
qed




lemma nodes_present_ok:
  "map Node edges = map (\<lambda>ap. Some (AccessProviderPageEdgesEdgeNodeAccessProvider ap)) aps \<Longrightarrow>
     extracts_ok ListAccessProviders_edgeFn edges
     \<and> items_of ListAccessProviders_edgeFn edges = map ItemOf aps"
proof (induction edges arbitrary: aps)
  case Nil
  then show ?case by simp
next
  case (Cons edge edges)
  then obtain ap aps' where aps: "aps = ap # aps'"
    and n: "Node edge = Some (AccessProviderPageEdgesEdgeNodeAccessProvider ap)"
    and r: "map Node edges
              = map (\<lambda>ap. Some (AccessProviderPageEdgesEdgeNodeAccessProvider ap)) aps'"
    by (cases aps) auto
  from n have "ListAccessProviders_edgeFn edge = Returns (Cursor edge, Some ap, None)"
    by (simp add: ListAccessProviders_edgeFn_def)
  with Cons.IH [OF r] aps show ?case by simp
qed

text \<open>
  C1 (as amended). With a context that is never cancelled: when the page loader of
  \<^verbatim>\<open>ListAccessProviders\<close> returns a sequence of pages, every page but the last
  announcing a next page with its end cursor and the last page announcing none, and
  the node of every edge is present and is an access provider (the variant the
  extractor asserts), the stream carries exactly one item per edge, the access
  providers of the edges in edge order within a page and page order across pages, and
  is then closed; the loader was called once per page.
\<close>

theorem ListAccessProviders_exhaustive:
  assumes "returns_pages
             (ListAccessProviders_loadPageFn q (apply_ops ops AccessProviderListOptions_zero))
             None s pages = Some (c, s')"
    and "fst (ListAccessProviders_loadPageFn q (apply_ops ops AccessProviderListOptions_zero) c s')
           = (Some lastInfo, lastEdges, None)"
    and "\<not> hasNextPage lastInfo"
    and "map Node (concat (map snd pages) @ lastEdges)
           = map (\<lambda>ap. Some (AccessProviderPageEdgesEdgeNodeAccessProvider ap)) (aps :: 'ap list)"
  shows "\<exists>tr. ListAccessProviders (\<lambda>n. False) q ops s = Some (tr @ [Close], Done)
           \<and> pushed tr = map ItemOf aps
           \<and> length (loader_calls tr) = Suc (length pages)
           \<and> Close \<notin> set tr"
proof -
  let ?l = "ListAccessProviders_loadPageFn q (apply_ops ops AccessProviderListOptions_zero)"
  let ?e = "ListAccessProviders_edgeFn :: 'ap AccessProviderPageEdgesEdgeNode Edge \<Rightarrow> _"
  from nodes_present_ok [OF assms(4)] have
    ok: "extracts_ok ?e (concat (map snd pages) @ lastEdges)"
    and it: "items_of ?e (concat (map snd pages) @ lastEdges) = map ItemOf aps"
    by simp_all
  from ok have ok1: "extracts_ok ?e (concat (map snd pages))" and ok2: "extracts_ok ?e lastEdges"
    by (simp_all add: extracts_ok_append)
  from fetching_pages [of ?l None s pages c s' ?e 0] assms(1) ok1 obtain pre n' where
    f: "fetching (\<lambda>n. False) ?l ?e None s 0
          = Option.bind (fetching (\<lambda>n. False) ?l ?e c s' n')
              (\<lambda>(tr', fin). Some (pre @ tr', fin))"
    and p: "pushed pre = items_of ?e (concat (map snd pages))"
    and l: "length (loader_calls pre) = length pages" and cl: "Close \<notin> set pre"
    by blast
  obtain s'' where ld: "?l c s' = ((Some lastInfo, lastEdges, None), s'')"
    using assms(2) by (cases "?l c s'") simp
  from fetching_page [where loadPageFn = ?l and cursor = c and s = s' and n = n', OF ld ok2]
    assms(3) obtain tr where
    p2: "pushed tr = items_of ?e lastEdges" and l2: "loader_calls tr = []"
    and cl2: "Close \<notin> set tr"
    and f2: "fetching (\<lambda>n. False) ?l ?e c s' n'
              = Some (Checkpoint False # LoaderCall c # tr @ [Close], Done)"
    by auto
  let ?tr = "pre @ Checkpoint False # LoaderCall c # tr"
  have "ListAccessProviders (\<lambda>n. False) q ops s = Some (?tr @ [Close], Done)"
    by (simp add: ListAccessProviders_def PaginationExecutor_def f f2)
  moreover have "pushed ?tr = map ItemOf aps"
    using p p2 it by (simp add: pushed_append items_of_append)
  moreover have "length (loader_calls ?tr) = Suc (length pages)"
    using l l2 by (simp add: loader_calls_append)
  moreover have "Close \<notin> set ?tr" using cl cl2 by simp
  ultimately show ?thesis by blast
qed

theorem ListAccessProviders_exhaustive_witness:
  "\<exists>tr. ListAccessProviders (\<lambda>n. False) example_two_pages
           [WithAccessProviderListOrder [7], WithAccessProviderListFilter (Some 5)] ()
         = Some (tr @ [Close], Done)
       \<and> pushed tr = map ItemOf [1, 2, 3]
       \<and> length (loader_calls tr)
          = Suc (length [(\<lparr>hasNextPage = True, endCursor = Some ''k2''\<rparr>,
                          [example_edge ''k1'' 1, example_edge ''k2'' 2])])
       \<and> Close \<notin> set tr"
  by (rule ListAccessProviders_exhaustive
        [where c = "Some ''k2''" and s' = "()"
           and lastInfo = "\<lparr>hasNextPage = False, endCursor = None\<rparr>"
           and lastEdges = "[example_edge ''k3'' 3]"])
    (simp_all add: ListAccessProviders_loadPageFn_def example_defs)

text \<open>
  The claim C1 as the specification states it, for edges whose nodes are merely
  present, fails: one page, announcing no next page, with one edge whose node is
  present; the extractor panics on the node's shape, the worker ends abruptly and the
  stream has carried no item, where the claim promises one.
\<close>

theorem ListAccessProviders_foreign_node_counterexample:
  "ListAccessProviders (\<lambda>n. False) example_foreign_node [] ()
     = Some ([Checkpoint False, LoaderCall None, Checkpoint False], Crashed)
   \<and> pushed [Checkpoint False, LoaderCall None, Checkpoint False :: nat event] = []"
  by (simp add: ListAccessProviders_def PaginationExecutor_def fetching.simps
      ListAccessProviders_loadPageFn_def ListAccessProviders_edgeFn_def example_defs)

text \<open>
  C4 (as amended). For every edge whose node is absent or is of the expected variant,
  each of the three edge extractors returns that edge's cursor; for an absent node it
  returns no item and no error, for a node of the expected variant the node's item and
  no error. In the executor an edge for which the extractor returns no item and no
  error is passed over: under a live context the worker goes on to the next edge and
  the trace gains its checkpoint and no push.
\<close>

theorem edgeFn_returns_cursor:
  "(Node edge = None
      \<longrightarrow> ListAccessProviders_edgeFn edge = Returns (Cursor edge, None, None))
   \<and> (Node edge = Some (AccessProviderPageEdgesEdgeNodeAccessProvider ap)
      \<longrightarrow> ListAccessProviders_edgeFn edge = Returns (Cursor edge, Some ap, None))
   \<and> (Node who_edge = None
      \<longrightarrow> GetAccessProviderWhoList_edgeFn who_edge = Returns (Cursor who_edge, None, None))
   \<and> (Node who_edge = Some (AccessProviderWhoListEdgesEdgeNodeAccessWhoItem who)
      \<longrightarrow> GetAccessProviderWhoList_edgeFn who_edge = Returns (Cursor who_edge, Some who, None))
   \<and> (Node what_edge = None
      \<longrightarrow> GetAccessProviderWhatDataObjectList_edgeFn what_edge
            = Returns (Cursor what_edge, None, None))
   \<and> (Node what_edge = Some (AccessProviderWhatListEdgesEdgeNodeAccessWhatItem what)
      \<longrightarrow> GetAccessProviderWhatDataObjectList_edgeFn what_edge
            = Returns (Cursor what_edge, Some what, None))
   \<and> (edgeFn e = Returns (cursor, None, None) \<and> \<not> ctx n
      \<longrightarrow> draining ctx edgeFn (e # edges) n
            = (case draining ctx edgeFn edges (Suc n) of
                 (fin, n', tr) \<Rightarrow> (fin, n', Checkpoint False # tr)))"
  by (simp add: ListAccessProviders_edgeFn_def GetAccessProviderWhoList_edgeFn_def
      GetAccessProviderWhatDataObjectList_edgeFn_def)

theorem edgeFn_returns_cursor_witness:
  "GetAccessProviderWhatDataObjectList_edgeFn
      \<lparr>Cursor = Some ''k4'', Node = (None :: nat AccessProviderWhatListEdgesEdgeNode option)\<rparr>
     = Returns (Some ''k4'', None, None)
   \<and> draining (\<lambda>n. False) GetAccessProviderWhatDataObjectList_edgeFn
        [\<lparr>Cursor = Some ''k4'', Node = None\<rparr>,
         \<lparr>Cursor = Some ''k5'',
          Node = Some (AccessProviderWhatListEdgesEdgeNodeAccessWhatItem (8 :: nat))\<rparr>] 1
     = (Exhausted, 3, [Checkpoint False, Checkpoint False, Push (ItemOf 8)])"
proof -
  let ?edge = "\<lparr>Cursor = Some ''k4'',
                 Node = (None :: nat AccessProviderWhatListEdgesEdgeNode option)\<rparr>"
  let ?edges = "[\<lparr>Cursor = Some ''k5'',
          Node = Some (AccessProviderWhatListEdgesEdgeNodeAccessWhatItem (8 :: nat))\<rparr>]"
  note th = edgeFn_returns_cursor
    [where what_edge = ?edge and edgeFn = GetAccessProviderWhatDataObjectList_edgeFn
       and e = ?edge and cursor = "Some ''k4''" and ctx = "\<lambda>n. False" and n = 1
       and edges = ?edges]
  have a: "Node ?edge = None \<longrightarrow>
      GetAccessProviderWhatDataObjectList_edgeFn ?edge = Returns (Cursor ?edge, None, None)"
    by (rule th [THEN conjunct2, THEN conjunct2, THEN conjunct2, THEN conjunct2, THEN conjunct1])
  have b: "GetAccessProviderWhatDataObjectList_edgeFn ?edge = Returns (Some ''k4'', None, None)
        \<and> \<not> (\<lambda>n. False) (1 :: nat)
      \<longrightarrow> draining (\<lambda>n. False) GetAccessProviderWhatDataObjectList_edgeFn (?edge # ?edges) 1
            = (case draining (\<lambda>n. False) GetAccessProviderWhatDataObjectList_edgeFn ?edges
                      (Suc 1) of
                 (fin, n', tr) \<Rightarrow> (fin, n', Checkpoint False # tr))"
    by (rule th [THEN conjunct2, THEN conjunct2, THEN conjunct2, THEN conjunct2,
                 THEN conjunct2, THEN conjunct2])
  from a b show ?thesis
    by (simp add: GetAccessProviderWhatDataObjectList_edgeFn_def)
qed

text \<open>
  The claim C4 as the specification states it, the cursor returned for every edge,
  fails on an edge of the what list whose node is present but of another shape: the
  extractor panics and returns nothing, whatever the item and the error.
\<close>

theorem edgeFn_returns_cursor_counterexample:
  "\<forall>item err.
     GetAccessProviderWhatDataObjectList_edgeFn
       \<lparr>Cursor = Some ''k1'',
        Node = Some (AccessProviderWhatListEdgesEdgeNodeOther
                       ''*schema.AccessProviderWhatListEdgesEdgeNodeDataSource''
                     :: nat AccessProviderWhatListEdgesEdgeNode)\<rparr>
     \<noteq> Returns (Some ''k1'', item, err)"
  by (simp add: GetAccessProviderWhatDataObjectList_edgeFn_def)

subsection \<open>Cancellation\<close>
















end
